theory Spec2Isabelle
  imports Main "HOL-Library.Word"
begin

section \<open>Script values and failures\<close>

text \<open>
  The promise-rejection events of the engine (\<^verbatim>\<open>v8::PromiseRejectEvent\<close>). A C++ enum can
  hold a value outside its enumerators; \<open>kPromiseRejectOther\<close> stands for any such value,
  which is what the final \<^verbatim>\<open>else\<close> of \<^verbatim>\<open>PromiseRejectCallback\<close> receives.
\<close>

datatype PromiseRejectEvent =
    kPromiseRejectWithNoHandler
  | kPromiseHandlerAddedAfterReject
  | kPromiseRejectAfterResolved
  | kPromiseResolveAfterResolved
  | kPromiseRejectOther nat

text \<open>
  Script values as far as the two source files look at them: \<open>JSNumber ev\<close> is
  \<^verbatim>\<open>Number::New(isolate, event)\<close>; functions, objects and promises are handles.
  A \<^verbatim>\<open>Local<T>\<close> or \<^verbatim>\<open>MaybeLocal<T>\<close> that may be empty is a \<open>jsval option\<close>.
\<close>

datatype jsval =
    JSUndefined
  | JSNumber PromiseRejectEvent
  | JSFunction nat
  | JSObject nat
  | JSPromise nat

text \<open>
  The two ways a native function of this layer can fail: a failed \<^verbatim>\<open>CHECK\<close> aborts the
  process (the text is the checked condition); an exception thrown into the script is the
  other one, and none of the functions below produces it.
\<close>

datatype error =
    CheckFailed string
  | ThrownException jsval

text \<open>A failure that reaches the script as an exception it could catch (a type error is one).\<close>

fun is_thrown :: "error + 'a \<Rightarrow> bool" where
  "is_thrown (Inl (ThrownException _)) = True"
| "is_thrown _ = False"

fun IsFunction :: "jsval \<Rightarrow> bool" where
  "IsFunction (JSFunction _) = True"
| "IsFunction _ = False"

text \<open>\<^verbatim>\<open>args[i]\<close> of a \<^verbatim>\<open>FunctionCallbackInfo\<close>: undefined beyond the arguments given.\<close>

definition arg_at :: "jsval list \<Rightarrow> nat \<Rightarrow> jsval" where
  "arg_at args i = (if i < length args then args ! i else JSUndefined)"

section \<open>The task queue (node\_task\_queue.cc)\<close>

record TickInfo =
  has_tick_scheduled :: bool
  has_rejection_to_warn :: bool

text \<open>
  The part of \<^verbatim>\<open>Environment\<close> (and of its isolate) that the task queue reads and writes.
  The callbacks are persistent handles that are empty until the script registers them.
  \<open>microtask_queue\<close> is the isolate's native queue, oldest entry first.
\<close>

record Environment =
  tick_info :: TickInfo
  tick_callback_function :: "jsval option"
  promise_reject_callback :: "jsval option"
  process_object :: jsval
  microtask_queue :: "jsval list"

text \<open>
  The engine is a collaborator: a microtask checkpoint and a call of a script function run
  script code, which may change anything in the environment. \<open>Call eng f recv args env\<close> is
  \<^verbatim>\<open>f->Call(context, recv, argc, argv)\<close>: its result is empty exactly when the call raised.
\<close>

record Engine =
  PerformCheckpoint :: "Environment \<Rightarrow> Environment"
  Call :: "jsval \<Rightarrow> jsval \<Rightarrow> jsval list \<Rightarrow> Environment \<Rightarrow> jsval option \<times> Environment"

text \<open>What the task queue asks of its collaborators, in the order it asks.\<close>

datatype tq_event =
    EvPerformCheckpoint
  | EvCall jsval jsval "jsval list"
  | EvTraceCounter2 "64 word" "64 word"

fun is_call :: "tq_event \<Rightarrow> bool" where
  "is_call (EvCall _ _ _) = True"
| "is_call _ = False"

definition both_flags_clear :: "Environment \<Rightarrow> bool" where
  "both_flags_clear env =
     (\<not> has_tick_scheduled (tick_info env) \<and> \<not> has_rejection_to_warn (tick_info env))"

text \<open>
  \<^verbatim>\<open>EnqueueMicrotask\<close>. The isolate's own \<^verbatim>\<open>EnqueueMicrotask\<close> is the engine's; it appends
  to the native queue.
\<close>

definition EnqueueMicrotask ::
    "jsval list \<Rightarrow> Environment \<Rightarrow> (error + unit) \<times> Environment" where
  "EnqueueMicrotask args env =
     (if \<not> IsFunction (arg_at args 0)
      then (Inl (CheckFailed ''args[0]->IsFunction()''), env)
      else (Inr (), env\<lparr>microtask_queue := microtask_queue env @ [arg_at args 0]\<rparr>))"

text \<open>
  \<^verbatim>\<open>RunNextTicksNative\<close>. The result is the returned boolean or the failed check, the
  environment afterwards, and the collaborator calls made.
\<close>

definition RunNextTicksNative ::
    "Engine \<Rightarrow> Environment \<Rightarrow> (error + bool) \<times> Environment \<times> tq_event list" where
  "RunNextTicksNative eng env =
     (let (env1, tr1) =
            (if \<not> has_tick_scheduled (tick_info env) \<and> \<not> has_rejection_to_warn (tick_info env)
             then (PerformCheckpoint eng env, [EvPerformCheckpoint])
             else (env, []))
      in if \<not> has_tick_scheduled (tick_info env1) \<and> \<not> has_rejection_to_warn (tick_info env1)
         then (Inr True, env1, tr1)
         else (case tick_callback_function env1 of
                 None \<Rightarrow> (Inl (CheckFailed ''!callback.IsEmpty()''), env1, tr1)
               | Some callback \<Rightarrow>
                   (let (r, env2) = Call eng callback (process_object env1) [] env1
                    in (Inr (r \<noteq> None), env2,
                        tr1 @ [EvCall callback (process_object env1) []]))))"

definition RunMicrotasks ::
    "Engine \<Rightarrow> jsval list \<Rightarrow> Environment \<Rightarrow> (error + unit) \<times> Environment \<times> tq_event list" where
  "RunMicrotasks eng args env = (Inr (), PerformCheckpoint eng env, [EvPerformCheckpoint])"

definition SetTickCallback ::
    "jsval list \<Rightarrow> Environment \<Rightarrow> (error + unit) \<times> Environment" where
  "SetTickCallback args env =
     (if \<not> IsFunction (arg_at args 0)
      then (Inl (CheckFailed ''args[0]->IsFunction()''), env)
      else (Inr (), env\<lparr>tick_callback_function := Some (arg_at args 0)\<rparr>))"

definition SetPromiseRejectCallback ::
    "jsval list \<Rightarrow> Environment \<Rightarrow> (error + unit) \<times> Environment" where
  "SetPromiseRejectCallback args env =
     (if \<not> IsFunction (arg_at args 0)
      then (Inl (CheckFailed ''args[0]->IsFunction()''), env)
      else (Inr (), env\<lparr>promise_reject_callback := Some (arg_at args 0)\<rparr>))"

text \<open>
  The two function-local statics of \<^verbatim>\<open>PromiseRejectCallback\<close>, of type
  \<^verbatim>\<open>std::atomic<uint64_t>\<close>: 64-bit words, whose increment wraps.
\<close>

record RejectionCounters =
  unhandledRejections :: "64 word"
  rejectionsHandledAfter :: "64 word"

record PromiseRejectMessage =
  GetPromise :: jsval
  GetEvent :: PromiseRejectEvent
  GetValue :: "jsval option"

text \<open>
  The \<^verbatim>\<open>if\<close>/\<^verbatim>\<open>else if\<close> chain of \<^verbatim>\<open>PromiseRejectCallback\<close> on the event: the value
  handle chosen (possibly empty), the counters afterwards and the trace counter emitted, or
  \<open>None\<close> where the chain ends in \<^verbatim>\<open>return\<close>.
\<close>

definition select_value ::
    "PromiseRejectMessage \<Rightarrow> RejectionCounters
       \<Rightarrow> (jsval option \<times> RejectionCounters \<times> tq_event list) option" where
  "select_value message ctrs =
     (if GetEvent message = kPromiseRejectWithNoHandler then
        (let c = ctrs\<lparr>unhandledRejections := unhandledRejections ctrs + 1\<rparr>
         in Some (GetValue message, c,
                  [EvTraceCounter2 (unhandledRejections c) (rejectionsHandledAfter c)]))
      else if GetEvent message = kPromiseHandlerAddedAfterReject then
        (let c = ctrs\<lparr>rejectionsHandledAfter := rejectionsHandledAfter ctrs + 1\<rparr>
         in Some (Some JSUndefined, c,
                  [EvTraceCounter2 (unhandledRejections c) (rejectionsHandledAfter c)]))
      else if GetEvent message = kPromiseResolveAfterResolved then
        Some (GetValue message, ctrs, [])
      else if GetEvent message = kPromiseRejectAfterResolved then
        Some (GetValue message, ctrs, [])
      else None)"

text \<open>
  \<^verbatim>\<open>PromiseRejectCallback\<close>. \<open>cur\<close> is \<^verbatim>\<open>Environment::GetCurrent(isolate)\<close>, which is null
  when the isolate has no environment. The result of the script call is dropped
  (\<^verbatim>\<open>USE\<close>); the environment it leaves is kept.
\<close>

definition PromiseRejectCallback ::
    "Engine \<Rightarrow> PromiseRejectMessage \<Rightarrow> Environment option \<Rightarrow> RejectionCounters
       \<Rightarrow> (error + unit) \<times> RejectionCounters \<times> Environment option \<times> tq_event list" where
  "PromiseRejectCallback eng message cur ctrs =
     (case cur of
        None \<Rightarrow> (Inr (), ctrs, None, [])
      | Some env \<Rightarrow>
          (case promise_reject_callback env of
             None \<Rightarrow> (Inl (CheckFailed ''!callback.IsEmpty()''), ctrs, Some env, [])
           | Some callback \<Rightarrow>
               (case select_value message ctrs of
                  None \<Rightarrow> (Inr (), ctrs, Some env, [])
                | Some (value, ctrs', tr) \<Rightarrow>
                    (let value' = (case value of None \<Rightarrow> JSUndefined | Some v \<Rightarrow> v);
                         args = [JSNumber (GetEvent message), GetPromise message, value'];
                         (r, env') = Call eng callback JSUndefined args env
                     in (Inr (), ctrs', Some env', tr @ [EvCall callback JSUndefined args])))))"

section \<open>The main instance (node\_main\_instance.cc)\<close>

text \<open>
  Pointers to collaborators' objects (isolate, event loop, platform, allocator, tables) are
  handles; a pointer that may be null is an \<open>option\<close>.
\<close>

record CreateParams =
  array_buffer_allocator :: "nat option"
  external_references :: "nat option"
  constraints :: nat

datatype IsolateSettingCategories = kErrorHandlers | kMisc

record IsolateData =
  id_isolate :: nat
  id_event_loop :: nat
  id_platform :: nat
  id_allocator :: "nat option"
  id_indexes :: "nat list option"

text \<open>
  The members \<^verbatim>\<open>args_\<close>, \<^verbatim>\<open>isolate_\<close>, ... of the class are the fields \<open>this_args\<close>,
  \<open>this_isolate\<close>, ... of the record.
\<close>

record NodeMainInstance =
  this_args :: "string list"
  this_exec_args :: "string list"
  this_array_buffer_allocator :: "nat option"
  this_isolate :: nat
  this_platform :: nat
  this_isolate_data :: IsolateData
  this_owns_isolate :: bool
  this_deserialize_mode :: bool

text \<open>
  Every call this file makes on a collaborator (engine, platform, reactor, environment,
  bootstrap, inspector), as an event; a run is observed as the list of its events in order.
  The event of a call whose result the file reads carries that result: the context handle
  (\<open>None\<close> when empty), the inspector's status, whether bootstrapping returned a value,
  the exit code of the exit event.
\<close>

datatype mi_event =
    EvArrayBufferAllocatorCreate nat
  | EvAllocatorReset nat
  | EvIsolateAllocate
  | EvRegisterIsolate nat nat
  | EvSetIsolateCreateParamsForNode
  | EvIsolateInitialize nat CreateParams
  | EvNewIsolateData IsolateData
  | EvSetIsolateUpForNode nat IsolateSettingCategories
  | EvDrainTasks nat
  | EvIsolateDispose nat
  | EvUnregisterIsolate nat
  | EvDeleteIsolateData IsolateData
  | EvStartTrackingHeapObjects
  | EvContextFromSnapshot "nat option"
  | EvNewContext "nat option"
  | EvNewEnvironment
  | EvInitializeLibuv
  | EvInitializeDiagnostics
  | EvInitializeInspector int
  | EvRunBootstrapping bool
  | EvPushAsyncIds
  | EvLoadEnvironment
  | EvPopAsyncId
  | EvMarkLoopStart
  | EvUvRun
  | EvDrainVMTasks
  | EvRunBeforeExitCallbacks
  | EvEmitBeforeExit
  | EvMarkLoopExit
  | EvSetTraceSyncIoFalse
  | EvEmitExit int
  | EvWaitForInspectorDisconnect
  | EvSetCanCallIntoJsFalse
  | EvStopSubWorkerContexts
  | EvResetStdio
  | EvRunCleanup
  | EvRunAtExit
  | EvCancelVMTasks
  | EvLsanDoLeakCheck

subsection \<open>Construction and destruction\<close>

text \<open>
  What the owned-mode constructor takes from outside the file: the process-wide flag
  \<^verbatim>\<open>node_is_nwjs\<close>, the allocator that \<^verbatim>\<open>ArrayBufferAllocator::Create()\<close> makes, the result
  of \<^verbatim>\<open>Isolate::Allocate()\<close> (null when it fails) and \<^verbatim>\<open>SetIsolateCreateParamsForNode\<close>,
  which edits the creation parameters in place.
\<close>

record Startup =
  node_is_nwjs :: bool
  ArrayBufferAllocator_Create :: nat
  Isolate_Allocate :: "nat option"
  SetIsolateCreateParamsForNode :: "CreateParams \<Rightarrow> CreateParams"

text \<open>The attach-mode constructor (lines 18 to 33) and \<^verbatim>\<open>Create\<close>.\<close>

definition NodeMainInstance_attach ::
    "nat \<Rightarrow> nat \<Rightarrow> nat \<Rightarrow> string list \<Rightarrow> string list \<Rightarrow> NodeMainInstance \<times> mi_event list" where
  "NodeMainInstance_attach isolate event_loop platform args exec_args =
     (let data = \<lparr>id_isolate = isolate, id_event_loop = event_loop, id_platform = platform,
                   id_allocator = None, id_indexes = None\<rparr>
      in (\<lparr>this_args = args, this_exec_args = exec_args, this_array_buffer_allocator = None,
           this_isolate = isolate, this_platform = platform, this_isolate_data = data,
           this_owns_isolate = False, this_deserialize_mode = False\<rparr>,
          [EvNewIsolateData data, EvSetIsolateUpForNode isolate kMisc]))"

definition Create ::
    "nat \<Rightarrow> nat \<Rightarrow> nat \<Rightarrow> string list \<Rightarrow> string list \<Rightarrow> NodeMainInstance \<times> mi_event list" where
  "Create isolate event_loop platform args exec_args =
     NodeMainInstance_attach isolate event_loop platform args exec_args"

text \<open>
  The owned-mode constructor (lines 44 to 83). The result is the events up to the return
  or the failed check, and either the failed check or the instance together with the
  creation parameters as the constructor leaves them for the caller.
\<close>

definition NodeMainInstance_owned ::
    "Startup \<Rightarrow> CreateParams \<Rightarrow> nat \<Rightarrow> nat \<Rightarrow> string list \<Rightarrow> string list \<Rightarrow> nat list option
       \<Rightarrow> (error + NodeMainInstance \<times> CreateParams) \<times> mi_event list" where
  "NodeMainInstance_owned st params event_loop platform args exec_args per_isolate_data_indexes =
     (let fresh = ArrayBufferAllocator_Create st;
          tr0 = [EvArrayBufferAllocatorCreate fresh];
          (allocator, tr1) =
            (if node_is_nwjs st then (None, tr0 @ [EvAllocatorReset fresh])
             else (Some fresh, tr0));
          params1 = params\<lparr>array_buffer_allocator := allocator\<rparr>;
          tr2 = tr1 @ [EvIsolateAllocate]
      in case Isolate_Allocate st of
           None \<Rightarrow> (Inl (CheckFailed ''isolate_ != nullptr''), tr2)
         | Some isolate \<Rightarrow>
             (let tr3 = tr2 @ [EvRegisterIsolate isolate event_loop];
                  params2 = SetIsolateCreateParamsForNode st params1;
                  tr4 = tr3 @ [EvSetIsolateCreateParamsForNode,
                               EvIsolateInitialize isolate params2];
                  deserialize_mode = (per_isolate_data_indexes \<noteq> None)
              in if deserialize_mode \<and> external_references params2 = None
                 then (Inl (CheckFailed
                         ''deserialize_mode_ implies params->external_references != nullptr''),
                       tr4)
                 else
                   (let data = \<lparr>id_isolate = isolate, id_event_loop = event_loop,
                                 id_platform = platform, id_allocator = allocator,
                                 id_indexes = per_isolate_data_indexes\<rparr>;
                        tr5 = tr4 @ [EvNewIsolateData data, EvSetIsolateUpForNode isolate kMisc];
                        tr6 = (if \<not> deserialize_mode
                               then tr5 @ [EvSetIsolateUpForNode isolate kErrorHandlers]
                               else tr5)
                    in (Inr (\<lparr>this_args = args, this_exec_args = exec_args,
                               this_array_buffer_allocator = allocator, this_isolate = isolate,
                               this_platform = platform, this_isolate_data = data,
                               this_owns_isolate = True, this_deserialize_mode = deserialize_mode\<rparr>,
                             params2),
                        tr6))))"

text \<open>The body of the destructor (lines 91 to 97).\<close>

definition NodeMainInstance_destructor_body :: "NodeMainInstance \<Rightarrow> mi_event list" where
  "NodeMainInstance_destructor_body inst =
     (if \<not> this_owns_isolate inst then []
      else [EvIsolateDispose (this_isolate inst), EvUnregisterIsolate (this_isolate inst)])"

text \<open>
  After the body, in either mode and also after the early \<^verbatim>\<open>return\<close>, the members are
  destroyed in the reverse of the order in which the constructors initialize them: the
  owning pointer \<^verbatim>\<open>isolate_data_\<close> deletes the isolate data, then the owning pointer
  \<^verbatim>\<open>array_buffer_allocator_\<close> releases the allocator if it still holds one (the same
  release that \<^verbatim>\<open>reset()\<close> makes in the constructor).
\<close>

definition release_members :: "NodeMainInstance \<Rightarrow> mi_event list" where
  "release_members inst =
     EvDeleteIsolateData (this_isolate_data inst)
     # (case this_array_buffer_allocator inst of
          None \<Rightarrow> []
        | Some allocator \<Rightarrow> [EvAllocatorReset allocator])"

text \<open>The destructor as a whole, and \<^verbatim>\<open>Dispose\<close>, whose \<^verbatim>\<open>delete this\<close> runs it.\<close>

definition NodeMainInstance_destructor :: "NodeMainInstance \<Rightarrow> mi_event list" where
  "NodeMainInstance_destructor inst = NodeMainInstance_destructor_body inst @ release_members inst"

definition Dispose :: "NodeMainInstance \<Rightarrow> (error + unit) \<times> mi_event list" where
  "Dispose inst =
     (if this_owns_isolate inst then (Inl (CheckFailed ''!(owns_isolate_)''), [])
      else (Inr (), EvDrainTasks (this_isolate inst) # NodeMainInstance_destructor inst))"

text \<open>
  A platform that records the order of calls: every isolate, when it is initialized, is
  among those registered so far and not yet unregistered.
\<close>

fun registered_when_initialized :: "nat list \<Rightarrow> mi_event list \<Rightarrow> bool" where
  "registered_when_initialized reg [] = True"
| "registered_when_initialized reg (EvRegisterIsolate i l # tr) =
     registered_when_initialized (i # reg) tr"
| "registered_when_initialized reg (EvUnregisterIsolate i # tr) =
     registered_when_initialized (removeAll i reg) tr"
| "registered_when_initialized reg (EvIsolateInitialize i p # tr) =
     (i \<in> set reg \<and> registered_when_initialized reg tr)"
| "registered_when_initialized reg (_ # tr) = registered_when_initialized reg tr"

fun is_initialize :: "mi_event \<Rightarrow> bool" where
  "is_initialize (EvIsolateInitialize _ _) = True"
| "is_initialize _ = False"

fun is_register :: "mi_event \<Rightarrow> bool" where
  "is_register (EvRegisterIsolate _ _) = True"
| "is_register _ = False"

fun is_unregister :: "mi_event \<Rightarrow> bool" where
  "is_unregister (EvUnregisterIsolate _) = True"
| "is_unregister _ = False"

fun is_dispose :: "mi_event \<Rightarrow> bool" where
  "is_dispose (EvIsolateDispose _) = True"
| "is_dispose _ = False"

subsection \<open>The run\<close>

text \<open>
  The state of everything outside the file (reactor, platform, environment, script) is a
  world \<open>'w\<close>. The collaborators say what each call does to it and what it returns;
  \<open>uv_loop_alive\<close> and \<open>is_stopping\<close> only read it. A call without a result is
  \<open>perform\<close> of its event.
  Exit codes are C \<^verbatim>\<open>int\<close>s that the file passes on and compares with 0 and never
  computes with; they are integers here.
\<close>

record 'w Collaborators =
  perform :: "mi_event \<Rightarrow> 'w \<Rightarrow> 'w"
  FromSnapshot :: "'w \<Rightarrow> nat option \<times> 'w"
  NewContext :: "'w \<Rightarrow> nat option \<times> 'w"
  InitializeInspector :: "'w \<Rightarrow> int \<times> 'w"
  RunBootstrapping :: "'w \<Rightarrow> jsval option \<times> 'w"
  EmitExit :: "'w \<Rightarrow> int \<times> 'w"
  uv_loop_alive :: "'w \<Rightarrow> bool"
  is_stopping :: "'w \<Rightarrow> bool"

text \<open>
  What is fixed outside the file: the option \<^verbatim>\<open>track_heap_objects\<close>, whether
  \<^verbatim>\<open>HAVE_INSPECTOR && NODE_USE_V8_PLATFORM\<close> holds in the build, and whether
  \<^verbatim>\<open>LEAK_SANITIZER\<close> is defined in it.
\<close>

record Settings =
  track_heap_objects :: bool
  have_inspector :: bool
  leak_sanitizer :: bool

datatype EnvFlag = kIsMainThread | kOwnsProcessState | kOwnsInspector

text \<open>The environment object that \<^verbatim>\<open>CreateMainEnvironment\<close> constructs at line 192.\<close>

record MainEnvironment =
  env_isolate_data :: IsolateData
  env_context :: nat
  env_args :: "string list"
  env_exec_args :: "string list"
  env_flags :: "EnvFlag list"

type_synonym 'w run_state = "'w \<times> mi_event list"

definition call :: "'w Collaborators \<Rightarrow> mi_event \<Rightarrow> 'w run_state \<Rightarrow> 'w run_state" where
  "call c x s = (perform c x (fst s), snd s @ [x])"

definition ask ::
    "('w \<Rightarrow> 'r \<times> 'w) \<Rightarrow> ('r \<Rightarrow> mi_event) \<Rightarrow> 'w run_state \<Rightarrow> 'r \<times> 'w run_state" where
  "ask f ev s = (case f (fst s) of (r, w') \<Rightarrow> (r, (w', snd s @ [ev r])))"

text \<open>
  The context of \<^verbatim>\<open>CreateMainEnvironment\<close> (lines 180 to 189): \<^verbatim>\<open>ToLocalChecked\<close> and the
  \<^verbatim>\<open>CHECK\<close> abort on an empty handle.
\<close>

definition make_context ::
    "'w Collaborators \<Rightarrow> NodeMainInstance \<Rightarrow> 'w run_state \<Rightarrow> (error + nat) \<times> 'w run_state" where
  "make_context c inst s =
     (if this_deserialize_mode inst then
        (case ask (FromSnapshot c) EvContextFromSnapshot s of
           (None, s1) \<Rightarrow> (Inl (CheckFailed ''ToLocalChecked''), s1)
         | (Some context, s1) \<Rightarrow>
             (Inr context, call c (EvSetIsolateUpForNode (this_isolate inst) kErrorHandlers) s1))
      else
        (case ask (NewContext c) EvNewContext s of
           (None, s1) \<Rightarrow> (Inl (CheckFailed ''!context.IsEmpty()''), s1)
         | (Some context, s1) \<Rightarrow> (Inr context, s1)))"

text \<open>
  \<^verbatim>\<open>CreateMainEnvironment\<close>: the returned \<^verbatim>\<open>unique_ptr\<close> (\<open>None\<close> would be null) and the
  exit code written through the pointer.
\<close>

definition CreateMainEnvironment ::
    "'w Collaborators \<Rightarrow> Settings \<Rightarrow> NodeMainInstance \<Rightarrow> 'w run_state
       \<Rightarrow> (error + MainEnvironment option \<times> int) \<times> 'w run_state" where
  "CreateMainEnvironment c cfg inst s =
     (let s1 = (if track_heap_objects cfg then call c EvStartTrackingHeapObjects s else s)
      in case make_context c inst s1 of
           (Inl e, s2) \<Rightarrow> (Inl e, s2)
         | (Inr context, s2) \<Rightarrow>
             (let env = \<lparr>env_isolate_data = this_isolate_data inst, env_context = context,
                         env_args = this_args inst, env_exec_args = this_exec_args inst,
                         env_flags = [kIsMainThread, kOwnsProcessState, kOwnsInspector]\<rparr>;
                  s3 = call c EvNewEnvironment s2;
                  s4 = call c EvInitializeLibuv s3;
                  s5 = call c EvInitializeDiagnostics s4;
                  (exit_code, s6) =
                    (if have_inspector cfg
                     then ask (InitializeInspector c) EvInitializeInspector s5
                     else (0, s5))
              in if exit_code \<noteq> 0 then (Inr (Some env, exit_code), s6)
                 else (case ask (RunBootstrapping c) (\<lambda>r. EvRunBootstrapping (r \<noteq> None)) s6 of
                         (None, s7) \<Rightarrow> (Inr (Some env, 1), s7)
                       | (Some v, s7) \<Rightarrow> (Inr (Some env, exit_code), s7))))"

text \<open>
  One pass through the body of the \<^verbatim>\<open>do\<close> loop of \<^verbatim>\<open>Run\<close> (lines 123 to 140), with the
  value of the loop condition that follows it. \<^verbatim>\<open>continue\<close> in a \<^verbatim>\<open>do\<close> loop goes to the
  condition.
\<close>

definition loop_iteration :: "'w Collaborators \<Rightarrow> 'w run_state \<Rightarrow> 'w run_state \<times> bool" where
  "loop_iteration c s =
     (let s1 = call c EvUvRun s;
          s2 = call c EvDrainVMTasks s1;
          more = uv_loop_alive c (fst s2)
      in if more \<and> \<not> is_stopping c (fst s2)
         then (s2, more \<and> \<not> is_stopping c (fst s2))
         else
           (let s3 = call c EvRunBeforeExitCallbacks s2;
                s4 = (if \<not> uv_loop_alive c (fst s3) then call c EvEmitBeforeExit s3 else s3);
                more = uv_loop_alive c (fst s4)
            in (s4, more \<and> \<not> is_stopping c (fst s4))))"

text \<open>The loop may run for ever; \<open>None\<close> is a loop that does not end.\<close>

partial_function (option) main_loop ::
    "'w Collaborators \<Rightarrow> 'w run_state \<Rightarrow> 'w run_state option" where
  "main_loop c s =
     (case loop_iteration c s of (s', again) \<Rightarrow> if again then main_loop c s' else Some s')"

text \<open>The branch \<^verbatim>\<open>if (exit_code == 0)\<close> of \<^verbatim>\<open>Run\<close> (lines 110 to 148).\<close>

definition run_to_exit :: "'w Collaborators \<Rightarrow> 'w run_state \<Rightarrow> (int \<times> 'w run_state) option" where
  "run_to_exit c s =
     (let s1 = call c EvPushAsyncIds s;
          s2 = call c EvLoadEnvironment s1;
          s3 = call c EvPopAsyncId s2;
          s4 = call c EvMarkLoopStart s3
      in case main_loop c s4 of
           None \<Rightarrow> None
         | Some s5 \<Rightarrow>
             (let s6 = call c EvMarkLoopExit s5;
                  s7 = call c EvSetTraceSyncIoFalse s6;
                  (exit_code, s8) = ask (EmitExit c) EvEmitExit s7;
                  s9 = call c EvWaitForInspectorDisconnect s8
              in Some (exit_code, s9)))"

text \<open>The end of \<^verbatim>\<open>Run\<close> (lines 150 to 157).\<close>

definition teardown_calls :: "mi_event list" where
  "teardown_calls =
     [EvSetCanCallIntoJsFalse, EvStopSubWorkerContexts, EvResetStdio, EvRunCleanup,
      EvRunAtExit, EvDrainVMTasks, EvCancelVMTasks]"

definition teardown :: "'w Collaborators \<Rightarrow> 'w run_state \<Rightarrow> 'w run_state" where
  "teardown c s =
     (let s1 = call c EvSetCanCallIntoJsFalse s;
          s2 = call c EvStopSubWorkerContexts s1;
          s3 = call c EvResetStdio s2;
          s4 = call c EvRunCleanup s3;
          s5 = call c EvRunAtExit s4;
          s6 = call c EvDrainVMTasks s5
      in call c EvCancelVMTasks s6)"

text \<open>The leak check of a build with \<^verbatim>\<open>LEAK_SANITIZER\<close> (lines 159 to 161).\<close>

definition leak_check :: "'w Collaborators \<Rightarrow> Settings \<Rightarrow> 'w run_state \<Rightarrow> 'w run_state" where
  "leak_check c cfg s = (if leak_sanitizer cfg then call c EvLsanDoLeakCheck s else s)"

text \<open>
  \<^verbatim>\<open>Run\<close>, from a world \<open>w\<close> and no events: \<open>None\<close> when the main loop does not end,
  otherwise the exit code or the failed check, with the world and the events at that point.
  The scope objects that \<^verbatim>\<open>Run\<close> and \<^verbatim>\<open>CreateMainEnvironment\<close> keep on the stack
  (\<^verbatim>\<open>Locker\<close>, \<^verbatim>\<open>Isolate::Scope\<close>, \<^verbatim>\<open>HandleScope\<close>, \<^verbatim>\<open>Context::Scope\<close>,
  \<^verbatim>\<open>AsyncCallbackScope\<close>, \<^verbatim>\<open>SealHandleScope\<close>) are not events.
\<close>

definition Run ::
    "'w Collaborators \<Rightarrow> Settings \<Rightarrow> NodeMainInstance \<Rightarrow> 'w
       \<Rightarrow> ((error + int) \<times> 'w run_state) option" where
  "Run c cfg inst w =
     (case CreateMainEnvironment c cfg inst (w, []) of
        (Inl e, s) \<Rightarrow> Some (Inl e, s)
      | (Inr (env, exit_code), s) \<Rightarrow>
          (case env of
             None \<Rightarrow> Some (Inl (CheckFailed ''env != nullptr''), s)
           | Some e \<Rightarrow>
               (case (if exit_code = 0 then run_to_exit c s else Some (exit_code, s)) of
                  None \<Rightarrow> None
                | Some (code, s') \<Rightarrow> Some (Inr code, leak_check c cfg (teardown c s')))))"

section \<open>Concrete collaborators\<close>

text \<open>
  An engine whose checkpoint empties the native queue and schedules a tick when the queue
  was not empty; a call of function 1 clears both flags and returns, a call of any other
  function raises.
\<close>

definition stub_engine :: Engine where
  "stub_engine =
     \<lparr>PerformCheckpoint =
        (\<lambda>env. env\<lparr>tick_info := (tick_info env)\<lparr>has_tick_scheduled := (microtask_queue env \<noteq> [])\<rparr>,
                    microtask_queue := []\<rparr>),
      Call =
        (\<lambda>f recv args env.
           if f = JSFunction 1
           then (Some JSUndefined,
                 env\<lparr>tick_info := \<lparr>has_tick_scheduled = False, has_rejection_to_warn = False\<rparr>\<rparr>)
           else (None, env))\<rparr>"

definition stub_env :: Environment where
  "stub_env =
     \<lparr>tick_info = \<lparr>has_tick_scheduled = False, has_rejection_to_warn = False\<rparr>,
      tick_callback_function = Some (JSFunction 1),
      promise_reject_callback = Some (JSFunction 1),
      process_object = JSObject 0,
      microtask_queue = []\<rparr>"

definition stub_counters :: RejectionCounters where
  "stub_counters = \<lparr>unhandledRejections = 4, rejectionsHandledAfter = 2\<rparr>"

definition stub_message :: "PromiseRejectEvent \<Rightarrow> jsval option \<Rightarrow> PromiseRejectMessage" where
  "stub_message ev v = \<lparr>GetPromise = JSPromise 3, GetEvent = ev, GetValue = v\<rparr>"

definition stub_startup :: Startup where
  "stub_startup =
     \<lparr>node_is_nwjs = True, ArrayBufferAllocator_Create = 7, Isolate_Allocate = Some 1,
      SetIsolateCreateParamsForNode = (\<lambda>p. p\<lparr>constraints := 64\<rparr>)\<rparr>"

definition stub_params :: CreateParams where
  "stub_params = \<lparr>array_buffer_allocator = None, external_references = None, constraints = 0\<rparr>"

text \<open>
  A world with a count of pending reactor work and a stopping flag. A reactor pass does all
  pending work; the before-exit hooks schedule one more piece of work and ask to stop.
\<close>

record World =
  pending :: nat
  stopping :: bool

definition stub_collab :: "World Collaborators" where
  "stub_collab =
     \<lparr>perform =
        (\<lambda>x w. if x = EvUvRun then w\<lparr>pending := 0\<rparr>
               else if x = EvRunBeforeExitCallbacks then w\<lparr>pending := 1, stopping := True\<rparr>
               else w),
      FromSnapshot = (\<lambda>w. (Some 1, w)),
      NewContext = (\<lambda>w. (Some 0, w)),
      InitializeInspector = (\<lambda>w. (9, w)),
      RunBootstrapping = (\<lambda>w. (None, w)),
      EmitExit = (\<lambda>w. (0, w)),
      uv_loop_alive = (\<lambda>w. 0 < pending w),
      is_stopping = stopping\<rparr>"

text \<open>
  The same world with a reactor that does one piece of pending work in a pass, and with
  before-exit hooks and a before-exit event that schedule nothing.
\<close>

definition quiet_collab :: "World Collaborators" where
  "quiet_collab =
     stub_collab\<lparr>perform := (\<lambda>x w. if x = EvUvRun then w\<lparr>pending := pending w - 1\<rparr> else w)\<rparr>"

definition stub_settings :: Settings where
  "stub_settings =
     \<lparr>track_heap_objects = False, have_inspector = True, leak_sanitizer = False\<rparr>"

definition stub_instance :: NodeMainInstance where
  "stub_instance = fst (Create 1 2 3 [''prog''] [])"

definition stub_world :: World where
  "stub_world = \<lparr>pending = 2, stopping = False\<rparr>"

section \<open>The task queue: what holds\<close>

text \<open>
  C1, as the code has it. \<^verbatim>\<open>RunNextTicksNative\<close> first performs a native microtask
  checkpoint if and only if both TickInfo flags are clear. If both flags are clear after
  that, it returns true and calls nothing else. Otherwise it reads the tick callback: when
  one is registered it calls it exactly once, with no arguments and the process object as
  receiver, and returns true exactly when the call did not raise; when none is registered
  the \<^verbatim>\<open>CHECK\<close> fails and nothing is called.
\<close>

theorem RunNextTicksNative_checkpoint_then_tick:
  "(case RunNextTicksNative eng env of (res, env', tr) \<Rightarrow>
      (let env1 = (if both_flags_clear env then PerformCheckpoint eng env else env);
           cp = (if both_flags_clear env then [EvPerformCheckpoint] else [])
       in (both_flags_clear env1 \<longrightarrow> res = Inr True \<and> env' = env1 \<and> tr = cp)
        \<and> (\<not> both_flags_clear env1 \<longrightarrow>
             (case tick_callback_function env1 of
                None \<Rightarrow>
                  res = Inl (CheckFailed ''!callback.IsEmpty()'') \<and> env' = env1 \<and> tr = cp
              | Some cb \<Rightarrow>
                  res = Inr (fst (Call eng cb (process_object env1) [] env1) \<noteq> None)
                  \<and> env' = snd (Call eng cb (process_object env1) [] env1)
                  \<and> tr = cp @ [EvCall cb (process_object env1) []]))))"
  by (simp add: RunNextTicksNative_def both_flags_clear_def Let_def
        split: option.splits prod.splits)

text \<open>
  A run of it: the queue holds one microtask, the checkpoint runs it and it schedules a
  tick, so the registered tick callback is called once and the result is true.
\<close>

theorem RunNextTicksNative_checkpoint_then_tick_witness:
  "RunNextTicksNative stub_engine (stub_env\<lparr>microtask_queue := [JSFunction 5]\<rparr>) =
     (Inr True, stub_env, [EvPerformCheckpoint, EvCall (JSFunction 1) (JSObject 0) []])"
  using RunNextTicksNative_checkpoint_then_tick
          [where eng = stub_engine and env = "stub_env\<lparr>microtask_queue := [JSFunction 5]\<rparr>"]
  by (simp add: stub_engine_def stub_env_def both_flags_clear_def split: prod.splits)

text \<open>
  C1 as stated, for every environment state, fails where a tick is scheduled and no tick
  callback is registered yet: nothing is called and no boolean is returned.
\<close>

theorem RunNextTicksNative_unregistered_counterexample:
  "RunNextTicksNative stub_engine
     (stub_env\<lparr>tick_info := \<lparr>has_tick_scheduled = True, has_rejection_to_warn = False\<rparr>,
               tick_callback_function := None\<rparr>) =
   (Inl (CheckFailed ''!callback.IsEmpty()''),
    stub_env\<lparr>tick_info := \<lparr>has_tick_scheduled = True, has_rejection_to_warn = False\<rparr>,
              tick_callback_function := None\<rparr>,
    [])"
  by (simp add: RunNextTicksNative_def stub_env_def)

text \<open>
  C2, as the code has it. With an environment whose rejection callback is registered,
  \<^verbatim>\<open>PromiseRejectCallback\<close> returns normally, and: on reject-with-no-handler it adds 1 to
  \<open>unhandledRejections\<close>, leaves \<open>rejectionsHandledAfter\<close>, emits the trace counter and
  calls the callback with the message's value; on handler-added-after-reject it adds 1 to
  \<open>rejectionsHandledAfter\<close>, leaves \<open>unhandledRejections\<close>, emits the trace counter and
  calls the callback with undefined; on resolve-after-resolved and reject-after-resolved it
  changes no counter and calls the callback with the message's value; on any other event
  it changes nothing and calls nothing. The call has undefined as receiver and the
  arguments (event, promise, value), and a message whose value handle is empty gives the
  value undefined.
\<close>

theorem PromiseRejectCallback_registered:
  "promise_reject_callback env = Some cb \<longrightarrow>
   (case PromiseRejectCallback eng m (Some env) ctrs of (res, ctrs', cur', tr) \<Rightarrow>
      (let value = (case GetValue m of None \<Rightarrow> JSUndefined | Some v \<Rightarrow> v);
           args = [JSNumber (GetEvent m), GetPromise m, value];
           undef = [JSNumber (GetEvent m), GetPromise m, JSUndefined]
       in (GetEvent m = kPromiseRejectWithNoHandler \<longrightarrow>
             res = Inr ()
             \<and> unhandledRejections ctrs' = unhandledRejections ctrs + 1
             \<and> rejectionsHandledAfter ctrs' = rejectionsHandledAfter ctrs
             \<and> cur' = Some (snd (Call eng cb JSUndefined args env))
             \<and> tr = [EvTraceCounter2 (unhandledRejections ctrs + 1) (rejectionsHandledAfter ctrs),
                     EvCall cb JSUndefined args])
        \<and> (GetEvent m = kPromiseHandlerAddedAfterReject \<longrightarrow>
             res = Inr ()
             \<and> rejectionsHandledAfter ctrs' = rejectionsHandledAfter ctrs + 1
             \<and> unhandledRejections ctrs' = unhandledRejections ctrs
             \<and> cur' = Some (snd (Call eng cb JSUndefined undef env))
             \<and> tr = [EvTraceCounter2 (unhandledRejections ctrs) (rejectionsHandledAfter ctrs + 1),
                     EvCall cb JSUndefined undef])
        \<and> (GetEvent m = kPromiseResolveAfterResolved \<or> GetEvent m = kPromiseRejectAfterResolved \<longrightarrow>
             res = Inr () \<and> ctrs' = ctrs
             \<and> cur' = Some (snd (Call eng cb JSUndefined args env))
             \<and> tr = [EvCall cb JSUndefined args])
        \<and> ((\<exists>n. GetEvent m = kPromiseRejectOther n) \<longrightarrow>
             res = Inr () \<and> ctrs' = ctrs \<and> cur' = Some env \<and> tr = [])))"
  by (auto simp add: PromiseRejectCallback_def select_value_def Let_def
        split: option.splits prod.splits)

text \<open>A promise rejected with no handler, reported to a registered callback.\<close>

theorem PromiseRejectCallback_registered_witness:
  "PromiseRejectCallback stub_engine (stub_message kPromiseRejectWithNoHandler (Some (JSObject 8)))
       (Some stub_env) stub_counters =
     (Inr (), \<lparr>unhandledRejections = 5, rejectionsHandledAfter = 2\<rparr>, Some stub_env,
      [EvTraceCounter2 5 2,
       EvCall (JSFunction 1) JSUndefined
         [JSNumber kPromiseRejectWithNoHandler, JSPromise 3, JSObject 8]])"
  using PromiseRejectCallback_registered
          [where eng = stub_engine and env = stub_env and cb = "JSFunction 1"
             and m = "stub_message kPromiseRejectWithNoHandler (Some (JSObject 8))"
             and ctrs = stub_counters]
  by (simp add: PromiseRejectCallback_def select_value_def stub_engine_def stub_env_def
        stub_message_def stub_counters_def)

text \<open>
  C2 as stated, for every invocation with an associated environment, fails in an
  environment whose rejection callback is not registered yet: a rejection with no handler
  leaves \<open>unhandledRejections\<close> as it was, and the function does not return. And where the
  message carries no value, the value dispatched is undefined.
\<close>

theorem PromiseRejectCallback_unregistered_counterexample:
  "PromiseRejectCallback stub_engine (stub_message kPromiseRejectWithNoHandler (Some (JSObject 8)))
       (Some (stub_env\<lparr>promise_reject_callback := None\<rparr>)) stub_counters =
     (Inl (CheckFailed ''!callback.IsEmpty()''), stub_counters,
      Some (stub_env\<lparr>promise_reject_callback := None\<rparr>), [])
   \<and> snd (snd (snd (PromiseRejectCallback stub_engine
                       (stub_message kPromiseRejectWithNoHandler None)
                       (Some stub_env) stub_counters))) =
      [EvTraceCounter2 5 2,
       EvCall (JSFunction 1) JSUndefined
         [JSNumber kPromiseRejectWithNoHandler, JSPromise 3, JSUndefined]]"
  by (simp add: PromiseRejectCallback_def select_value_def stub_engine_def stub_env_def
        stub_message_def stub_counters_def)

text \<open>
  The abort of the counterexample, in general: whatever the event, an environment without a
  registered rejection callback fails the check before any counter changes.
\<close>

lemma PromiseRejectCallback_unregistered:
  "promise_reject_callback env = None \<Longrightarrow>
   PromiseRejectCallback eng m (Some env) ctrs =
     (Inl (CheckFailed ''!callback.IsEmpty()''), ctrs, Some env, [])"
  by (simp add: PromiseRejectCallback_def)

text \<open>
  C3. When no environment is associated with the promise's isolate,
  \<^verbatim>\<open>PromiseRejectCallback\<close> returns with both counters as they were and without calling
  anything, whatever the event.
\<close>

theorem PromiseRejectCallback_without_environment:
  "PromiseRejectCallback eng message None ctrs = (Inr (), ctrs, None, [])"
  by (simp add: PromiseRejectCallback_def)

text \<open>
  C9, as the code has it. When the first argument is not a function, \<^verbatim>\<open>EnqueueMicrotask\<close>
  fails its \<^verbatim>\<open>CHECK\<close>, which aborts the process, and the environment with its native
  queue is as before; when it is a function, the function is appended to the native queue
  and nothing is returned. In neither case is an exception thrown to the script.
\<close>

theorem EnqueueMicrotask_check:
  "\<not> is_thrown (fst (EnqueueMicrotask args env))
   \<and> (\<not> IsFunction (arg_at args 0) \<longrightarrow>
        EnqueueMicrotask args env = (Inl (CheckFailed ''args[0]->IsFunction()''), env))
   \<and> (IsFunction (arg_at args 0) \<longrightarrow>
        EnqueueMicrotask args env =
          (Inr (), env\<lparr>microtask_queue := microtask_queue env @ [arg_at args 0]\<rparr>))"
  by (simp add: EnqueueMicrotask_def)

text \<open>A function is queued; a call without arguments fails the check.\<close>

theorem EnqueueMicrotask_check_witness:
  "EnqueueMicrotask [JSFunction 5] stub_env =
     (Inr (), stub_env\<lparr>microtask_queue := [JSFunction 5]\<rparr>)
   \<and> EnqueueMicrotask [] stub_env = (Inl (CheckFailed ''args[0]->IsFunction()''), stub_env)"
  using EnqueueMicrotask_check [where args = "[JSFunction 5]" and env = stub_env]
        EnqueueMicrotask_check [where args = "[]" and env = stub_env]
  by (simp add: arg_at_def stub_env_def)

text \<open>
  C9 as stated fails on an object that is not a function: the failure is the aborting
  check, not a type error raised to the caller.
\<close>

theorem EnqueueMicrotask_abort_counterexample:
  "EnqueueMicrotask [JSObject 3] stub_env =
     (Inl (CheckFailed ''args[0]->IsFunction()''), stub_env)
   \<and> \<not> is_thrown (fst (EnqueueMicrotask [JSObject 3] stub_env))"
  by (simp add: EnqueueMicrotask_def arg_at_def)

section \<open>Construction and destruction: what holds\<close>

text \<open>
  C4. An owned-mode construction that yields an instance yields one whose deserialize mode
  is true exactly when a table of per-isolate snapshot indexes was supplied. And a
  construction with such a table and a null table of external references yields no instance
  at all: it ends in a failed \<^verbatim>\<open>CHECK\<close>. (The check reads the parameters after
  \<^verbatim>\<open>SetIsolateCreateParamsForNode\<close> has edited them; that function is taken to leave the
  table of external references alone.)
\<close>

theorem owned_deserialize_mode:
  "(case NodeMainInstance_owned st params event_loop platform args exec_args idx of (res, tr) \<Rightarrow>
      (\<forall>inst p. res = Inr (inst, p) \<longrightarrow> (this_deserialize_mode inst \<longleftrightarrow> idx \<noteq> None))
    \<and> ((\<forall>p. external_references (SetIsolateCreateParamsForNode st p) = external_references p)
        \<and> idx \<noteq> None \<and> external_references params = None \<longrightarrow>
          (\<exists>e. res = Inl (CheckFailed e))))"
  by (auto simp add: NodeMainInstance_owned_def Let_def split: option.splits prod.splits if_splits)

text \<open>
  Three constructions: a table of indexes without external references fails the check; with
  external references it gives an instance in deserialize mode; without a table of indexes
  it gives an instance that is not in deserialize mode.
\<close>

theorem owned_deserialize_mode_witness:
  "fst (NodeMainInstance_owned stub_startup stub_params 2 3 [''prog''] [] (Some [0, 1])) =
     Inl (CheckFailed ''deserialize_mode_ implies params->external_references != nullptr'')
   \<and> (case fst (NodeMainInstance_owned stub_startup (stub_params\<lparr>external_references := Some 5\<rparr>)
                   2 3 [''prog''] [] (Some [0, 1])) of
         Inl e \<Rightarrow> False | Inr (inst, p) \<Rightarrow> this_deserialize_mode inst)
   \<and> (case fst (NodeMainInstance_owned stub_startup stub_params 2 3 [''prog''] [] None) of
         Inl e \<Rightarrow> False | Inr (inst, p) \<Rightarrow> \<not> this_deserialize_mode inst)"
  using owned_deserialize_mode
          [where st = stub_startup and params = stub_params and event_loop = 2 and platform = 3
             and args = "[''prog'']" and exec_args = "[]" and idx = "Some [0, 1]"]
  by (simp add: NodeMainInstance_owned_def stub_startup_def stub_params_def Let_def)

text \<open>
  C5. In every owned-mode construction the isolate is registered with the platform before
  it is initialized: the recording platform accepts the events, and when an isolate was
  allocated there is exactly one registration and exactly one initialization, both of that
  isolate. The construction does not unregister it. The destructor of the instance it
  yields disposes the isolate and then unregisters it, and after that only releases its
  members (the isolate data, and the allocator when one was kept): over the construction and
  the destructor together the isolate is unregistered exactly once, after its one disposal.
  In attach mode the body of the destructor does nothing, and the destructor as a whole
  only deletes the isolate data: it neither disposes nor unregisters the isolate.
\<close>

theorem owned_registered_before_initialized:
  "(case NodeMainInstance_owned st params event_loop platform args exec_args idx of (res, tr) \<Rightarrow>
      registered_when_initialized [] tr
    \<and> (\<forall>iso. Isolate_Allocate st = Some iso \<longrightarrow>
          filter is_register tr = [EvRegisterIsolate iso event_loop]
        \<and> (\<exists>p. filter is_initialize tr = [EvIsolateInitialize iso p]))
    \<and> (\<forall>inst p. res = Inr (inst, p) \<longrightarrow>
          this_owns_isolate inst \<and> Isolate_Allocate st = Some (this_isolate inst)
        \<and> filter is_unregister tr = []
        \<and> NodeMainInstance_destructor_body inst =
            [EvIsolateDispose (this_isolate inst), EvUnregisterIsolate (this_isolate inst)]
        \<and> NodeMainInstance_destructor inst =
            [EvIsolateDispose (this_isolate inst), EvUnregisterIsolate (this_isolate inst),
             EvDeleteIsolateData (this_isolate_data inst)]
            @ (if node_is_nwjs st then [] else [EvAllocatorReset (ArrayBufferAllocator_Create st)])
        \<and> filter is_unregister (tr @ NodeMainInstance_destructor inst) =
            [EvUnregisterIsolate (this_isolate inst)]
        \<and> filter is_dispose (tr @ NodeMainInstance_destructor inst) =
            [EvIsolateDispose (this_isolate inst)]
        \<and> registered_when_initialized [] (tr @ NodeMainInstance_destructor inst)))
   \<and> NodeMainInstance_destructor_body
       (fst (NodeMainInstance_attach iso' loop' platform' args' exec_args')) = []
   \<and> NodeMainInstance_destructor
       (fst (NodeMainInstance_attach iso' loop' platform' args' exec_args')) =
       [EvDeleteIsolateData
          \<lparr>id_isolate = iso', id_event_loop = loop', id_platform = platform',
           id_allocator = None, id_indexes = None\<rparr>]"
  by (cases "Isolate_Allocate st"; cases "node_is_nwjs st"; cases idx;
      simp add: NodeMainInstance_owned_def NodeMainInstance_attach_def
        NodeMainInstance_destructor_def NodeMainInstance_destructor_body_def release_members_def
        Let_def)

text \<open>
  The events of one owned-mode construction, and the destructor of its instance: once with
  the allocator discarded at construction, once with the allocator kept until the
  destructor releases it.
\<close>

theorem owned_registered_before_initialized_witness:
  "snd (NodeMainInstance_owned stub_startup stub_params 2 3 [''prog''] [] None) =
     [EvArrayBufferAllocatorCreate 7, EvAllocatorReset 7, EvIsolateAllocate,
      EvRegisterIsolate 1 2, EvSetIsolateCreateParamsForNode,
      EvIsolateInitialize 1
        \<lparr>array_buffer_allocator = None, external_references = None, constraints = 64\<rparr>,
      EvNewIsolateData
        \<lparr>id_isolate = 1, id_event_loop = 2, id_platform = 3, id_allocator = None,
         id_indexes = None\<rparr>,
      EvSetIsolateUpForNode 1 kMisc, EvSetIsolateUpForNode 1 kErrorHandlers]
   \<and> (case fst (NodeMainInstance_owned stub_startup stub_params 2 3 [''prog''] [] None) of
         Inl e \<Rightarrow> False
       | Inr (inst, p) \<Rightarrow>
           NodeMainInstance_destructor inst =
             [EvIsolateDispose 1, EvUnregisterIsolate 1,
              EvDeleteIsolateData
                \<lparr>id_isolate = 1, id_event_loop = 2, id_platform = 3, id_allocator = None,
                 id_indexes = None\<rparr>])
   \<and> snd (NodeMainInstance_owned (stub_startup\<lparr>node_is_nwjs := False\<rparr>) stub_params 2 3
            [''prog''] [] None) =
     [EvArrayBufferAllocatorCreate 7, EvIsolateAllocate,
      EvRegisterIsolate 1 2, EvSetIsolateCreateParamsForNode,
      EvIsolateInitialize 1
        \<lparr>array_buffer_allocator = Some 7, external_references = None, constraints = 64\<rparr>,
      EvNewIsolateData
        \<lparr>id_isolate = 1, id_event_loop = 2, id_platform = 3, id_allocator = Some 7,
         id_indexes = None\<rparr>,
      EvSetIsolateUpForNode 1 kMisc, EvSetIsolateUpForNode 1 kErrorHandlers]
   \<and> (case fst (NodeMainInstance_owned (stub_startup\<lparr>node_is_nwjs := False\<rparr>) stub_params 2 3
                   [''prog''] [] None) of
         Inl e \<Rightarrow> False
       | Inr (inst, p) \<Rightarrow>
           NodeMainInstance_destructor inst =
             [EvIsolateDispose 1, EvUnregisterIsolate 1,
              EvDeleteIsolateData
                \<lparr>id_isolate = 1, id_event_loop = 2, id_platform = 3, id_allocator = Some 7,
                 id_indexes = None\<rparr>,
              EvAllocatorReset 7])"
  using owned_registered_before_initialized
          [where st = stub_startup and params = stub_params and event_loop = 2 and platform = 3
             and args = "[''prog'']" and exec_args = "[]" and idx = None]
        owned_registered_before_initialized
          [where st = "stub_startup\<lparr>node_is_nwjs := False\<rparr>" and params = stub_params
             and event_loop = 2 and platform = 3
             and args = "[''prog'']" and exec_args = "[]" and idx = None]
  by (simp add: NodeMainInstance_owned_def NodeMainInstance_destructor_def
        NodeMainInstance_destructor_body_def release_members_def stub_startup_def
        stub_params_def Let_def)

text \<open>
  C10. When \<^verbatim>\<open>node_is_nwjs\<close> is set, an owned-mode construction discards the allocator
  right after creating it; the parameters handed to the isolate's initialization are those
  made from a null allocator (so their allocator is null, \<^verbatim>\<open>SetIsolateCreateParamsForNode\<close>
  leaving that field alone); and the instance it yields owns its isolate and has no
  allocator, in itself and in its isolate data.
\<close>

theorem nwjs_owned_without_allocator:
  "node_is_nwjs st \<longrightarrow>
   (case NodeMainInstance_owned st params event_loop platform args exec_args idx of (res, tr) \<Rightarrow>
      take 2 tr = [EvArrayBufferAllocatorCreate (ArrayBufferAllocator_Create st),
                   EvAllocatorReset (ArrayBufferAllocator_Create st)]
    \<and> (\<forall>i p. EvIsolateInitialize i p \<in> set tr \<longrightarrow>
          p = SetIsolateCreateParamsForNode st (params\<lparr>array_buffer_allocator := None\<rparr>))
    \<and> ((\<forall>p. array_buffer_allocator (SetIsolateCreateParamsForNode st p) = array_buffer_allocator p) \<longrightarrow>
          (\<forall>i p. EvIsolateInitialize i p \<in> set tr \<longrightarrow> array_buffer_allocator p = None))
    \<and> (\<forall>inst p. res = Inr (inst, p) \<longrightarrow>
          this_owns_isolate inst \<and> this_array_buffer_allocator inst = None
        \<and> id_allocator (this_isolate_data inst) = None
        \<and> EvIsolateInitialize (this_isolate inst) p \<in> set tr))"
  by (auto simp add: NodeMainInstance_owned_def Let_def split: option.splits prod.splits if_splits)

text \<open>An owned instance without an allocator.\<close>

theorem nwjs_owned_without_allocator_witness:
  "(case fst (NodeMainInstance_owned stub_startup stub_params 2 3 [''prog''] [] None) of
      Inl e \<Rightarrow> False
    | Inr (inst, p) \<Rightarrow>
        this_owns_isolate inst \<and> this_array_buffer_allocator inst = None
        \<and> array_buffer_allocator p = None)"
  using nwjs_owned_without_allocator
          [where st = stub_startup and params = stub_params and event_loop = 2 and platform = 3
             and args = "[''prog'']" and exec_args = "[]" and idx = None]
  by (simp add: NodeMainInstance_owned_def stub_startup_def stub_params_def Let_def)

section \<open>The run: what holds\<close>

subsection \<open>Events of the helpers\<close>

lemma snd_call: "snd (call c x s) = snd s @ [x]"
  by (simp add: call_def)

lemma fst_call: "fst (call c x s) = perform c x (fst s)"
  by (simp add: call_def)

lemma snd_teardown: "snd (teardown c s) = snd s @ teardown_calls"
  by (simp add: teardown_def teardown_calls_def Let_def snd_call)

lemma snd_leak_check:
  "snd (leak_check c cfg s) = snd s @ (if leak_sanitizer cfg then [EvLsanDoLeakCheck] else [])"
  by (simp add: leak_check_def snd_call)

lemma make_context_failed:
  assumes "make_context c inst s = (Inl e, s2)"
  shows "snd s2 = snd s @ [EvNewContext None] \<or> snd s2 = snd s @ [EvContextFromSnapshot None]"
  using assms
  by (auto simp add: make_context_def ask_def split: if_splits prod.splits option.splits)

lemma make_context_made:
  assumes "make_context c inst s = (Inr context, s2)"
  shows "snd s2 =
           snd s @ (if this_deserialize_mode inst
                    then [EvContextFromSnapshot (Some context),
                          EvSetIsolateUpForNode (this_isolate inst) kErrorHandlers]
                    else [EvNewContext (Some context)])"
  using assms
  by (auto simp add: make_context_def ask_def snd_call split: if_splits prod.splits option.splits)

lemma CreateMainEnvironment_context_failed:
  assumes "make_context c inst
             (if track_heap_objects cfg then call c EvStartTrackingHeapObjects s else s) = (Inl e, s2)"
  shows "CreateMainEnvironment c cfg inst s = (Inl e, s2)"
  using assms by (simp add: CreateMainEnvironment_def Let_def)

lemma CreateMainEnvironment_context_made:
  assumes "make_context c inst
             (if track_heap_objects cfg then call c EvStartTrackingHeapObjects s else s) = (Inr context, s2)"
  shows "\<exists>env code s'. CreateMainEnvironment c cfg inst s = (Inr (Some env, code), s')
           \<and> (\<exists>tail. snd s' = snd s2 @ [EvNewEnvironment, EvInitializeLibuv, EvInitializeDiagnostics] @ tail
                 \<and> (tail = [EvRunBootstrapping True] \<and> code = 0
                    \<or> tail = [EvRunBootstrapping False] \<and> code = 1
                    \<or> tail = [EvInitializeInspector 0, EvRunBootstrapping True] \<and> code = 0
                    \<or> tail = [EvInitializeInspector 0, EvRunBootstrapping False] \<and> code = 1
                    \<or> tail = [EvInitializeInspector code] \<and> code \<noteq> 0))"
  using assms
  by (auto simp add: CreateMainEnvironment_def Let_def snd_call ask_def
        split: prod.splits option.splits)

lemma CreateMainEnvironment_shape:
  assumes "CreateMainEnvironment c cfg inst (w, []) = (res, s')"
  shows "(\<exists>e. res = Inl e
            \<and> (EvNewContext None \<in> set (snd s') \<or> EvContextFromSnapshot None \<in> set (snd s')))
       \<or> (\<exists>env code ctx pre tail. res = Inr (Some env, code)
            \<and> snd s' = pre @ [EvNewEnvironment, EvInitializeLibuv, EvInitializeDiagnostics] @ tail
            \<and> set pre \<subseteq> {EvStartTrackingHeapObjects, EvContextFromSnapshot (Some ctx),
                            EvSetIsolateUpForNode (this_isolate inst) kErrorHandlers,
                            EvNewContext (Some ctx)}
            \<and> (tail = [EvRunBootstrapping True] \<and> code = 0
               \<or> tail = [EvRunBootstrapping False] \<and> code = 1
               \<or> tail = [EvInitializeInspector 0, EvRunBootstrapping True] \<and> code = 0
               \<or> tail = [EvInitializeInspector 0, EvRunBootstrapping False] \<and> code = 1
               \<or> tail = [EvInitializeInspector code] \<and> code \<noteq> 0))"
proof -
  let ?s1 = "if track_heap_objects cfg then call c EvStartTrackingHeapObjects (w, []) else (w, [])"
  obtain r s2 where mc: "make_context c inst ?s1 = (r, s2)"
    by (cases "make_context c inst ?s1") auto
  show ?thesis
  proof (cases r)
    case (Inl e)
    have "CreateMainEnvironment c cfg inst (w, []) = (Inl e, s2)"
      using mc Inl by (simp add: CreateMainEnvironment_context_failed)
    moreover have "snd s2 = snd ?s1 @ [EvNewContext None]
                   \<or> snd s2 = snd ?s1 @ [EvContextFromSnapshot None]"
      using mc Inl by (simp add: make_context_failed)
    ultimately show ?thesis
      using assms by auto
  next
    case (Inr ctx)
    have made: "make_context c inst ?s1 = (Inr ctx, s2)"
      using mc Inr by simp
    from CreateMainEnvironment_context_made [OF made]
    obtain env code s'' tail where
      run: "CreateMainEnvironment c cfg inst (w, []) = (Inr (Some env, code), s'')" and
      tr: "snd s'' = snd s2 @ [EvNewEnvironment, EvInitializeLibuv, EvInitializeDiagnostics] @ tail" and
      tl: "tail = [EvRunBootstrapping True] \<and> code = 0
           \<or> tail = [EvRunBootstrapping False] \<and> code = 1
           \<or> tail = [EvInitializeInspector 0, EvRunBootstrapping True] \<and> code = 0
           \<or> tail = [EvInitializeInspector 0, EvRunBootstrapping False] \<and> code = 1
           \<or> tail = [EvInitializeInspector code] \<and> code \<noteq> 0"
      by blast
    have pre: "set (snd s2) \<subseteq> {EvStartTrackingHeapObjects, EvContextFromSnapshot (Some ctx),
                               EvSetIsolateUpForNode (this_isolate inst) kErrorHandlers,
                               EvNewContext (Some ctx)}"
      using make_context_made [OF made] by (simp add: snd_call)
    have "res = Inr (Some env, code)" and "s' = s''"
      using assms run by simp_all
    then show ?thesis
      using tr tl pre by blast
  qed
qed

subsection \<open>Creating the main environment\<close>

text \<open>
  C6, as the code has it. Whenever the context handle obtained is not empty,
  \<^verbatim>\<open>CreateMainEnvironment\<close> returns a non-null environment together with an exit code: if
  the inspector was initialized and reported a nonzero status, the exit code is that status
  and the function returns right there, without bootstrapping; if bootstrapping returned
  nothing, the exit code is 1; if bootstrapping returned a value, the exit code is 0, and
  only then.
\<close>

theorem CreateMainEnvironment_returns_environment:
  "(case CreateMainEnvironment c cfg inst (w, []) of (res, s') \<Rightarrow>
      (EvNewContext None \<notin> set (snd s') \<and> EvContextFromSnapshot None \<notin> set (snd s') \<longrightarrow>
         (\<exists>env code. res = Inr (Some env, code)
            \<and> (\<forall>k. k \<noteq> 0 \<and> EvInitializeInspector k \<in> set (snd s') \<longrightarrow>
                  code = k \<and> (\<forall>b. EvRunBootstrapping b \<notin> set (snd s'))
                  \<and> last (snd s') = EvInitializeInspector k)
            \<and> (EvRunBootstrapping False \<in> set (snd s') \<longrightarrow> code = 1)
            \<and> (EvRunBootstrapping True \<in> set (snd s') \<longrightarrow> code = 0)
            \<and> (code = 0 \<longrightarrow> EvRunBootstrapping True \<in> set (snd s')))))"
proof -
  obtain res s' where run: "CreateMainEnvironment c cfg inst (w, []) = (res, s')"
    by (cases "CreateMainEnvironment c cfg inst (w, [])") auto
  have "EvNewContext None \<notin> set (snd s') \<and> EvContextFromSnapshot None \<notin> set (snd s') \<longrightarrow>
         (\<exists>env code. res = Inr (Some env, code)
            \<and> (\<forall>k. k \<noteq> 0 \<and> EvInitializeInspector k \<in> set (snd s') \<longrightarrow>
                  code = k \<and> (\<forall>b. EvRunBootstrapping b \<notin> set (snd s'))
                  \<and> last (snd s') = EvInitializeInspector k)
            \<and> (EvRunBootstrapping False \<in> set (snd s') \<longrightarrow> code = 1)
            \<and> (EvRunBootstrapping True \<in> set (snd s') \<longrightarrow> code = 0)
            \<and> (code = 0 \<longrightarrow> EvRunBootstrapping True \<in> set (snd s')))"
    using CreateMainEnvironment_shape [OF run] by (elim disjE exE conjE) auto
  then show ?thesis
    using run by simp
qed

text \<open>
  The inspector reports 9: the environment comes back with exit code 9 and bootstrapping
  has not run. The inspector reports 0 and bootstrapping fails: exit code 1.
\<close>

theorem CreateMainEnvironment_returns_environment_witness:
  "CreateMainEnvironment stub_collab stub_settings stub_instance (stub_world, []) =
     (Inr (Some \<lparr>env_isolate_data = this_isolate_data stub_instance, env_context = 0,
                  env_args = [''prog''], env_exec_args = [],
                  env_flags = [kIsMainThread, kOwnsProcessState, kOwnsInspector]\<rparr>, 9),
      (stub_world,
       [EvNewContext (Some 0), EvNewEnvironment, EvInitializeLibuv, EvInitializeDiagnostics,
        EvInitializeInspector 9]))
   \<and> fst (CreateMainEnvironment (stub_collab\<lparr>InitializeInspector := (\<lambda>w. (0, w))\<rparr>)
            stub_settings stub_instance (stub_world, [])) =
     Inr (Some \<lparr>env_isolate_data = this_isolate_data stub_instance, env_context = 0,
                 env_args = [''prog''], env_exec_args = [],
                 env_flags = [kIsMainThread, kOwnsProcessState, kOwnsInspector]\<rparr>, 1)"
  using CreateMainEnvironment_returns_environment
          [where c = stub_collab and cfg = stub_settings and inst = stub_instance and w = stub_world]
  by (simp add: CreateMainEnvironment_def make_context_def ask_def call_def Let_def
        stub_collab_def stub_settings_def stub_instance_def Create_def NodeMainInstance_attach_def)

text \<open>
  C6 as stated, that an environment is always returned, fails where the engine gives an
  empty context: the \<^verbatim>\<open>CHECK\<close> on the context fails and nothing is returned.
\<close>

theorem CreateMainEnvironment_no_context_counterexample:
  "CreateMainEnvironment (stub_collab\<lparr>NewContext := (\<lambda>w. (None, w))\<rparr>)
       stub_settings stub_instance (stub_world, []) =
     (Inl (CheckFailed ''!context.IsEmpty()''), (stub_world, [EvNewContext None]))"
  by (simp add: CreateMainEnvironment_def make_context_def ask_def call_def Let_def
        stub_collab_def stub_settings_def stub_instance_def Create_def NodeMainInstance_attach_def)

subsection \<open>Startup failure and teardown\<close>

lemma CreateMainEnvironment_events:
  assumes "CreateMainEnvironment c cfg inst (w, []) = (Inr (env, code), s)"
  shows "env \<noteq> None"
    and "EvPushAsyncIds \<notin> set (snd s)" and "EvLoadEnvironment \<notin> set (snd s)"
    and "EvPopAsyncId \<notin> set (snd s)" and "EvMarkLoopStart \<notin> set (snd s)"
    and "EvUvRun \<notin> set (snd s)" and "EvDrainVMTasks \<notin> set (snd s)"
    and "EvRunBeforeExitCallbacks \<notin> set (snd s)" and "EvEmitBeforeExit \<notin> set (snd s)"
    and "EvMarkLoopExit \<notin> set (snd s)" and "EvSetTraceSyncIoFalse \<notin> set (snd s)"
    and "EvEmitExit k \<notin> set (snd s)" and "EvWaitForInspectorDisconnect \<notin> set (snd s)"
  using CreateMainEnvironment_shape [OF assms] by auto

lemma Run_ends_with_teardown:
  assumes "Run c cfg inst w = Some (Inr code, s)"
  shows "\<exists>pre. snd s =
           pre @ teardown_calls @ (if leak_sanitizer cfg then [EvLsanDoLeakCheck] else [])"
  using assms
  by (auto simp add: Run_def snd_teardown snd_leak_check
        split: prod.splits sum.splits option.splits if_splits)

text \<open>
  C7. When \<^verbatim>\<open>CreateMainEnvironment\<close> gives a nonzero exit code, \<^verbatim>\<open>Run\<close> returns that
  code, and after the events of \<^verbatim>\<open>CreateMainEnvironment\<close> it makes exactly the calls of the
  teardown, in order: disallow calls into the script, stop the sub-worker contexts, reset
  standard I/O, run the cleanup hooks, run the at-exit hooks, drain and then cancel the
  platform's tasks (and then the leak check, in a build that has it). The load phase, the
  main loop and the exit event do not occur. And every run that returns an exit code,
  whatever the code, ends with the calls of the teardown.
\<close>

theorem Run_startup_failure_tears_down:
  "(\<forall>env code s. CreateMainEnvironment c cfg inst (w, []) = (Inr (env, code), s) \<and> code \<noteq> 0 \<longrightarrow>
       Run c cfg inst w = Some (Inr code, leak_check c cfg (teardown c s))
     \<and> snd (leak_check c cfg (teardown c s)) =
         snd s @ teardown_calls @ (if leak_sanitizer cfg then [EvLsanDoLeakCheck] else [])
     \<and> fst (teardown c s) = foldl (\<lambda>w x. perform c x w) (fst s) teardown_calls
     \<and> EvPushAsyncIds \<notin> set (snd (leak_check c cfg (teardown c s)))
     \<and> EvLoadEnvironment \<notin> set (snd (leak_check c cfg (teardown c s)))
     \<and> EvUvRun \<notin> set (snd (leak_check c cfg (teardown c s)))
     \<and> EvRunBeforeExitCallbacks \<notin> set (snd (leak_check c cfg (teardown c s)))
     \<and> EvEmitBeforeExit \<notin> set (snd (leak_check c cfg (teardown c s)))
     \<and> (\<forall>k. EvEmitExit k \<notin> set (snd (leak_check c cfg (teardown c s)))))
   \<and> (\<forall>code s. Run c cfg inst w = Some (Inr code, s) \<longrightarrow>
         (\<exists>pre. snd s =
            pre @ teardown_calls @ (if leak_sanitizer cfg then [EvLsanDoLeakCheck] else [])))"
proof (intro conjI allI impI)
  fix env code s
  assume a: "CreateMainEnvironment c cfg inst (w, []) = (Inr (env, code), s) \<and> code \<noteq> 0"
  then have run: "CreateMainEnvironment c cfg inst (w, []) = (Inr (env, code), s)"
    and nz: "code \<noteq> 0"
    by simp_all
  note ev = CreateMainEnvironment_events [OF run]
  note tr = snd_leak_check snd_teardown teardown_calls_def
  show "Run c cfg inst w = Some (Inr code, leak_check c cfg (teardown c s))"
    using run nz ev(1) by (auto simp add: Run_def)
  show "snd (leak_check c cfg (teardown c s)) =
          snd s @ teardown_calls @ (if leak_sanitizer cfg then [EvLsanDoLeakCheck] else [])"
    by (simp add: snd_leak_check snd_teardown)
  show "fst (teardown c s) = foldl (\<lambda>w x. perform c x w) (fst s) teardown_calls"
    by (simp add: teardown_def teardown_calls_def Let_def fst_call)
  show "EvPushAsyncIds \<notin> set (snd (leak_check c cfg (teardown c s)))"
    using ev(2) by (simp add: tr)
  show "EvLoadEnvironment \<notin> set (snd (leak_check c cfg (teardown c s)))"
    using ev(3) by (simp add: tr)
  show "EvUvRun \<notin> set (snd (leak_check c cfg (teardown c s)))"
    using ev(6) by (simp add: tr)
  show "EvRunBeforeExitCallbacks \<notin> set (snd (leak_check c cfg (teardown c s)))"
    using ev(8) by (simp add: tr)
  show "EvEmitBeforeExit \<notin> set (snd (leak_check c cfg (teardown c s)))"
    using ev(9) by (simp add: tr)
  show "\<And>k. EvEmitExit k \<notin> set (snd (leak_check c cfg (teardown c s)))"
    using ev(12) by (simp add: tr)
next
  fix code s
  assume "Run c cfg inst w = Some (Inr code, s)"
  then show "\<exists>pre. snd s =
               pre @ teardown_calls @ (if leak_sanitizer cfg then [EvLsanDoLeakCheck] else [])"
    by (rule Run_ends_with_teardown)
qed

text \<open>A run whose inspector reports 9.\<close>

theorem Run_startup_failure_tears_down_witness:
  "Run stub_collab stub_settings stub_instance stub_world =
     Some (Inr 9,
           (stub_world,
            [EvNewContext (Some 0), EvNewEnvironment, EvInitializeLibuv, EvInitializeDiagnostics,
             EvInitializeInspector 9,
             EvSetCanCallIntoJsFalse, EvStopSubWorkerContexts, EvResetStdio, EvRunCleanup,
             EvRunAtExit, EvDrainVMTasks, EvCancelVMTasks]))"
  using Run_startup_failure_tears_down
          [where c = stub_collab and cfg = stub_settings and inst = stub_instance and w = stub_world]
  by (simp add: Run_def teardown_def leak_check_def CreateMainEnvironment_def make_context_def
        ask_def call_def
        Let_def stub_collab_def stub_settings_def stub_instance_def Create_def
        NodeMainInstance_attach_def)

subsection \<open>The main loop\<close>

lemma main_loop_unfold:
  "main_loop c s =
     (if snd (loop_iteration c s) then main_loop c (fst (loop_iteration c s))
      else Some (fst (loop_iteration c s)))"
  by (subst main_loop.simps) (simp split: prod.splits)

text \<open>
  C8. After a pass through the loop body the loop is left exactly when the reactor has no
  pending work or the environment is stopping, both read at the end of the pass. A pass has
  one of three shapes. When the reactor has work after the reactor pass and the drain, and
  the environment is not stopping, the pass ends there (\<^verbatim>\<open>continue\<close>) and the loop goes on:
  the before-exit hooks do not run. Otherwise the before-exit hooks run; when the reactor
  has work after them, the before-exit event is not emitted and the loop is left exactly
  when the environment is stopping; when the reactor has no work after them, the before-exit
  event is emitted and the loop is left exactly when, after the event, the reactor still has
  no work or the environment is stopping. So a loop left for want of reactor work is left
  after the hooks and the event; and when the hooks leave the stopping flag set with reactor
  work pending, the loop ends with that pass: there is no further reactor pass.
\<close>

theorem main_loop_exit_condition:
  "(let s2 = call c EvDrainVMTasks (call c EvUvRun s);
        s3 = call c EvRunBeforeExitCallbacks s2;
        s4 = call c EvEmitBeforeExit s3
    in (case loop_iteration c s of (s', again) \<Rightarrow>
          (\<not> again \<longleftrightarrow> \<not> uv_loop_alive c (fst s') \<or> is_stopping c (fst s'))
        \<and> (\<not> again \<longrightarrow>
              snd s' = snd s @ [EvUvRun, EvDrainVMTasks, EvRunBeforeExitCallbacks]
            \<or> snd s' = snd s @ [EvUvRun, EvDrainVMTasks, EvRunBeforeExitCallbacks, EvEmitBeforeExit])
        \<and> main_loop c s = (if again then main_loop c s' else Some s')
        \<and> (uv_loop_alive c (fst s2) \<and> \<not> is_stopping c (fst s2) \<longrightarrow>
              again \<and> s' = s2 \<and> snd s' = snd s @ [EvUvRun, EvDrainVMTasks])
        \<and> (\<not> (uv_loop_alive c (fst s2) \<and> \<not> is_stopping c (fst s2)) \<and> uv_loop_alive c (fst s3) \<longrightarrow>
              s' = s3 \<and> snd s' = snd s @ [EvUvRun, EvDrainVMTasks, EvRunBeforeExitCallbacks]
            \<and> again = (\<not> is_stopping c (fst s3)))
        \<and> (\<not> (uv_loop_alive c (fst s2) \<and> \<not> is_stopping c (fst s2)) \<and> \<not> uv_loop_alive c (fst s3) \<longrightarrow>
              s' = s4
            \<and> snd s' = snd s @ [EvUvRun, EvDrainVMTasks, EvRunBeforeExitCallbacks, EvEmitBeforeExit]
            \<and> again = (uv_loop_alive c (fst s4) \<and> \<not> is_stopping c (fst s4))))
     \<and> (\<not> (uv_loop_alive c (fst s2) \<and> \<not> is_stopping c (fst s2))
          \<and> uv_loop_alive c (fst s3) \<and> is_stopping c (fst s3) \<longrightarrow>
            main_loop c s = Some s3
          \<and> snd s3 = snd s @ [EvUvRun, EvDrainVMTasks, EvRunBeforeExitCallbacks])
     \<and> (\<not> (uv_loop_alive c (fst s2) \<and> \<not> is_stopping c (fst s2))
          \<and> \<not> uv_loop_alive c (fst s3) \<and> \<not> uv_loop_alive c (fst s4) \<longrightarrow>
            main_loop c s = Some s4
          \<and> snd s4 = snd s @ [EvUvRun, EvDrainVMTasks, EvRunBeforeExitCallbacks, EvEmitBeforeExit])
     \<and> (uv_loop_alive c (fst s2) \<and> \<not> is_stopping c (fst s2) \<longrightarrow>
            main_loop c s = main_loop c s2)
     \<and> (\<not> (uv_loop_alive c (fst s2) \<and> \<not> is_stopping c (fst s2))
          \<and> \<not> uv_loop_alive c (fst s3)
          \<and> uv_loop_alive c (fst s4) \<and> \<not> is_stopping c (fst s4) \<longrightarrow>
            main_loop c s = main_loop c s4))"
proof -
  let ?s2 = "call c EvDrainVMTasks (call c EvUvRun s)"
  let ?s3 = "call c EvRunBeforeExitCallbacks ?s2"
  let ?s4 = "call c EvEmitBeforeExit ?s3"
  have cont: "loop_iteration c s = (?s2, True)"
    if "uv_loop_alive c (fst ?s2) \<and> \<not> is_stopping c (fst ?s2)"
    using that by (auto simp add: loop_iteration_def Let_def)
  have hooks: "loop_iteration c s = (?s3, \<not> is_stopping c (fst ?s3))"
    if "\<not> (uv_loop_alive c (fst ?s2) \<and> \<not> is_stopping c (fst ?s2))" "uv_loop_alive c (fst ?s3)"
    using that by (auto simp add: loop_iteration_def Let_def)
  have event: "loop_iteration c s = (?s4, uv_loop_alive c (fst ?s4) \<and> \<not> is_stopping c (fst ?s4))"
    if "\<not> (uv_loop_alive c (fst ?s2) \<and> \<not> is_stopping c (fst ?s2))" "\<not> uv_loop_alive c (fst ?s3)"
    using that by (auto simp add: loop_iteration_def Let_def)
  have tr2: "snd ?s2 = snd s @ [EvUvRun, EvDrainVMTasks]"
    and tr3: "snd ?s3 = snd s @ [EvUvRun, EvDrainVMTasks, EvRunBeforeExitCallbacks]"
    and tr4: "snd ?s4 = snd s @ [EvUvRun, EvDrainVMTasks, EvRunBeforeExitCallbacks, EvEmitBeforeExit]"
    by (simp_all add: snd_call)
  consider (a) "uv_loop_alive c (fst ?s2) \<and> \<not> is_stopping c (fst ?s2)"
    | (b) "\<not> (uv_loop_alive c (fst ?s2) \<and> \<not> is_stopping c (fst ?s2))" "uv_loop_alive c (fst ?s3)"
    | (c) "\<not> (uv_loop_alive c (fst ?s2) \<and> \<not> is_stopping c (fst ?s2))" "\<not> uv_loop_alive c (fst ?s3)"
    by blast
  then show ?thesis
  proof cases
    case a
    show ?thesis
      unfolding Let_def using a cont [OF a] tr2 tr2 tr3 tr4 main_loop_unfold [of c s]
      by auto
  next
    case b
    show ?thesis
      unfolding Let_def using b hooks [OF b] tr3 tr2 tr3 tr4 main_loop_unfold [of c s]
      by auto
  next
    case c
    show ?thesis
      unfolding Let_def using c event [OF c] tr4 tr2 tr3 tr4 main_loop_unfold [of c s]
      by auto
  qed
qed

text \<open>
  Two runs of the loop from two pieces of pending work. With hooks that schedule one more
  and ask to stop, the loop ends after one reactor pass, with work pending. With a reactor
  that does one piece per pass and hooks that schedule nothing, the first pass ends in
  \<^verbatim>\<open>continue\<close>, and the second runs the hooks and the before-exit event and leaves the
  loop with no work pending.
\<close>

theorem main_loop_exit_condition_witness:
  "main_loop stub_collab (stub_world, []) =
     Some (\<lparr>pending = 1, stopping = True\<rparr>, [EvUvRun, EvDrainVMTasks, EvRunBeforeExitCallbacks])
   \<and> main_loop quiet_collab (stub_world, []) =
     Some (\<lparr>pending = 0, stopping = False\<rparr>,
           [EvUvRun, EvDrainVMTasks, EvUvRun, EvDrainVMTasks, EvRunBeforeExitCallbacks,
            EvEmitBeforeExit])"
  using main_loop_exit_condition [where c = stub_collab and s = "(stub_world, [])"]
        main_loop_exit_condition [where c = quiet_collab and s = "(stub_world, [])"]
        main_loop_exit_condition [where c = quiet_collab
             and s = "(\<lparr>pending = 1, stopping = False\<rparr>, [EvUvRun, EvDrainVMTasks])"]
  by (simp add: loop_iteration_def call_def Let_def stub_collab_def quiet_collab_def stub_world_def)

subsection \<open>A whole run\<close>

text \<open>
  The same collaborators with an inspector that reports 0 and a bootstrap that succeeds: the
  load phase, one pass of the main loop (left because the hooks asked to stop), the exit
  event and the teardown, with exit code 0.
\<close>

lemma main_loop_stub:
  "main_loop (stub_collab\<lparr>InitializeInspector := (\<lambda>w. (0, w)),
                           RunBootstrapping := (\<lambda>w. (Some JSUndefined, w))\<rparr>) (stub_world, tr) =
     Some (\<lparr>pending = 1, stopping = True\<rparr>, tr @ [EvUvRun, EvDrainVMTasks, EvRunBeforeExitCallbacks])"
  by (subst main_loop_unfold)
     (simp add: loop_iteration_def call_def Let_def stub_collab_def stub_world_def)

lemma Run_clean_example:
  "Run (stub_collab\<lparr>InitializeInspector := (\<lambda>w. (0, w)),
                    RunBootstrapping := (\<lambda>w. (Some JSUndefined, w))\<rparr>)
       stub_settings stub_instance stub_world =
     Some (Inr 0,
           (\<lparr>pending = 1, stopping = True\<rparr>,
            [EvNewContext (Some 0), EvNewEnvironment, EvInitializeLibuv, EvInitializeDiagnostics,
             EvInitializeInspector 0, EvRunBootstrapping True,
             EvPushAsyncIds, EvLoadEnvironment, EvPopAsyncId, EvMarkLoopStart,
             EvUvRun, EvDrainVMTasks, EvRunBeforeExitCallbacks,
             EvMarkLoopExit, EvSetTraceSyncIoFalse, EvEmitExit 0, EvWaitForInspectorDisconnect,
             EvSetCanCallIntoJsFalse, EvStopSubWorkerContexts, EvResetStdio, EvRunCleanup,
             EvRunAtExit, EvDrainVMTasks, EvCancelVMTasks]))"
proof -
  have "CreateMainEnvironment (stub_collab\<lparr>InitializeInspector := (\<lambda>w. (0, w)),
                    RunBootstrapping := (\<lambda>w. (Some JSUndefined, w))\<rparr>)
       stub_settings stub_instance (stub_world, []) =
      (Inr (Some \<lparr>env_isolate_data = this_isolate_data stub_instance, env_context = 0,
                  env_args = [''prog''], env_exec_args = [],
                  env_flags = [kIsMainThread, kOwnsProcessState, kOwnsInspector]\<rparr>, 0),
       (stub_world, [EvNewContext (Some 0), EvNewEnvironment, EvInitializeLibuv, EvInitializeDiagnostics,
             EvInitializeInspector 0, EvRunBootstrapping True]))"
    by (simp add: CreateMainEnvironment_def make_context_def ask_def call_def Let_def
        stub_collab_def stub_settings_def stub_instance_def Create_def NodeMainInstance_attach_def)
  then show ?thesis
    apply (simp add: Run_def run_to_exit_def Let_def)
    apply (simp add: call_def stub_collab_def)
    apply (simp add: main_loop_stub [unfolded stub_collab_def, simplified])
    apply (simp add: ask_def teardown_def leak_check_def call_def Let_def stub_settings_def
             stub_collab_def)
    done
qed

end
